theory Spec2Isabelle
  imports Main "HOL-Library.Sublist" "HOL-Library.Monad_Syntax"
begin

section \<open>Values decoded from JSON\<close>

text \<open>
  \<^verbatim>\<open>JSONSerialization\<close> delivers a tree of Foundation objects, which the service probes
  with conditional casts (\<^verbatim>\<open>as? String\<close>, \<^verbatim>\<open>as? Int\<close>, \<^verbatim>\<open>as? Double\<close>,
  \<^verbatim>\<open>as? [String: Any]\<close>, \<^verbatim>\<open>as? [[String: Any]]\<close>).

  A number (JSON \<^verbatim>\<open>true\<close> and \<^verbatim>\<open>false\<close> arrive as numbers as well) is represented by
  what the two numeric casts of the service make of it: the \<^verbatim>\<open>Int\<close> it bridges to, if any,
  and the \<^verbatim>\<open>Double\<close> it bridges to, if any. The type \<open>'d\<close> stands for \<^verbatim>\<open>Double\<close>; the
  service only stores such values and never computes with them.

  A dictionary is an association list read with \<^const>\<open>map_of\<close>.
\<close>

datatype 'd any =
    NSNull
  | NSString string
  | NSNumber "int option" "'d option"
  | NSArray "'d any list"
  | NSDictionary "(string \<times> 'd any) list"

type_synonym 'd dict = "(string \<times> 'd any) list"

text \<open>Swift's \<^verbatim>\<open>Int\<close> is a 64-bit signed integer on the platforms of the app.\<close>

definition Int_min :: int where
  "Int_min = - (2 ^ 63)"

definition Int_max :: int where
  "Int_max = 2 ^ 63 - 1"

definition isInt :: "int \<Rightarrow> bool" where
  "isInt n = (Int_min \<le> n \<and> n \<le> Int_max)"

fun asString :: "'d any \<Rightarrow> string option" where
  "asString (NSString s) = Some s"
| "asString _ = None"

fun asInt :: "'d any \<Rightarrow> int option" where
  "asInt (NSNumber (Some n) d) = (if isInt n then Some n else None)"
| "asInt _ = None"

fun asDouble :: "'d any \<Rightarrow> 'd option" where
  "asDouble (NSNumber i d) = d"
| "asDouble _ = None"

fun asDict :: "'d any \<Rightarrow> 'd dict option" where
  "asDict (NSDictionary kvs) = Some kvs"
| "asDict _ = None"

text \<open>\<^verbatim>\<open>as? [[String: Any]]\<close>: an array all of whose elements are dictionaries.\<close>

fun allDicts :: "'d any list \<Rightarrow> 'd dict list option" where
  "allDicts [] = Some []"
| "allDicts (x # xs) =
     (case asDict x of
        None \<Rightarrow> None
      | Some kvs \<Rightarrow> (case allDicts xs of None \<Rightarrow> None | Some ds \<Rightarrow> Some (kvs # ds)))"

fun asDictArray :: "'d any \<Rightarrow> 'd dict list option" where
  "asDictArray (NSArray xs) = allDicts xs"
| "asDictArray _ = None"

text \<open>\<^verbatim>\<open>dict[key] as? T\<close>: a missing key and a failed cast both give \<^verbatim>\<open>nil\<close>.\<close>

definition getString :: "'d dict \<Rightarrow> string \<Rightarrow> string option" where
  "getString d k = Option.bind (map_of d k) asString"

definition getInt :: "'d dict \<Rightarrow> string \<Rightarrow> int option" where
  "getInt d k = Option.bind (map_of d k) asInt"

definition getDouble :: "'d dict \<Rightarrow> string \<Rightarrow> 'd option" where
  "getDouble d k = Option.bind (map_of d k) asDouble"

definition getDict :: "'d dict \<Rightarrow> string \<Rightarrow> 'd dict option" where
  "getDict d k = Option.bind (map_of d k) asDict"

definition getDictArray :: "'d dict \<Rightarrow> string \<Rightarrow> 'd dict list option" where
  "getDictArray d k = Option.bind (map_of d k) asDictArray"

text \<open>\<^verbatim>\<open>x ?? default\<close>\<close>

definition orElse :: "'a option \<Rightarrow> 'a \<Rightarrow> 'a" where
  "orElse x d = (case x of Some v \<Rightarrow> v | None \<Rightarrow> d)"

text \<open>\<^verbatim>\<open>array.first\<close>\<close>

fun first :: "'a list \<Rightarrow> 'a option" where
  "first [] = None"
| "first (x # xs) = Some x"

section \<open>The data model\<close>

datatype Difficulty = easy | medium | hard

datatype SourceType = original | aiGenerated | imported | ocr

datatype MealType = breakfast | lunch | dinner | dessert | snack

fun Difficulty_rawValue :: "Difficulty \<Rightarrow> string" where
  "Difficulty_rawValue easy = ''Easy''"
| "Difficulty_rawValue medium = ''Medium''"
| "Difficulty_rawValue hard = ''Hard''"

fun MealType_rawValue :: "MealType \<Rightarrow> string" where
  "MealType_rawValue breakfast = ''Breakfast''"
| "MealType_rawValue lunch = ''Lunch''"
| "MealType_rawValue dinner = ''Dinner''"
| "MealType_rawValue dessert = ''Dessert''"
| "MealType_rawValue snack = ''Snack''"

definition MealType_allCases :: "MealType list" where
  "MealType_allCases = [breakfast, lunch, dinner, dessert, snack]"

text \<open>
  The identifiers (\<^verbatim>\<open>UUID()\<close>), the time stamps (\<^verbatim>\<open>Date()\<close>), the image data, the tags
  and the back references from a child to its recipe are left out of the records: the
  service neither reads nor sets them.
\<close>

record 'd Ingredient =
  item :: string
  quantity :: "'d option"
  unit :: "string option"
  section' :: "string option"
  isChecked :: bool

record Instruction =
  stepNumber :: int
  instruction :: string
  timeMinutes :: "int option"
  tip :: "string option"

record 'd Nutrition =
  calories :: int
  proteinG :: 'd
  carbsG :: 'd
  fatG :: 'd
  fiberG :: "'d option"
  sugarG :: "'d option"
  sodiumMg :: "'d option"

record 'd Recipe =
  title :: string
  recipeDescription :: "string option"
  cookTime :: int
  prepTime :: int
  servings :: int
  difficulty :: Difficulty
  cuisine :: "string option"
  mealType :: "MealType option"
  sourceType :: SourceType
  sourceURL :: "string option"
  ingredients :: "'d Ingredient list"
  instructions :: "Instruction list"
  nutrition :: "'d Nutrition option"

definition Recipe_init ::
  "string \<Rightarrow> string option \<Rightarrow> int \<Rightarrow> int \<Rightarrow> int \<Rightarrow> Difficulty \<Rightarrow> string option \<Rightarrow>
   MealType option \<Rightarrow> SourceType \<Rightarrow> string option \<Rightarrow> 'd Recipe" where
  "Recipe_init title' description' cookTime' prepTime' servings' difficulty' cuisine'
       mealType' sourceType' sourceURL' =
     \<lparr> title = title', recipeDescription = description', cookTime = cookTime',
       prepTime = prepTime', servings = servings', difficulty = difficulty',
       cuisine = cuisine', mealType = mealType', sourceType = sourceType',
       sourceURL = sourceURL', ingredients = [], instructions = [], nutrition = None \<rparr>"

text \<open>
  \<^verbatim>\<open>var totalTime: Int { prepTime + cookTime }\<close>: Swift's \<^verbatim>\<open>+\<close> traps when the sum leaves
  the range of \<^verbatim>\<open>Int\<close>; \<open>None\<close> is the trap.
\<close>

definition totalTime :: "'d Recipe \<Rightarrow> int option" where
  "totalTime r =
     (if isInt (prepTime r + cookTime r) then Some (prepTime r + cookTime r) else None)"

definition Ingredient_init ::
  "string \<Rightarrow> 'd option \<Rightarrow> string option \<Rightarrow> string option \<Rightarrow> 'd Ingredient" where
  "Ingredient_init item' quantity' unit' sec =
     \<lparr> item = item', quantity = quantity', unit = unit', section' = sec, isChecked = False \<rparr>"

definition Instruction_init ::
  "int \<Rightarrow> string \<Rightarrow> int option \<Rightarrow> string option \<Rightarrow> Instruction" where
  "Instruction_init stepNumber' instruction' timeMinutes' tip' =
     \<lparr> stepNumber = stepNumber', instruction = instruction', timeMinutes = timeMinutes',
       tip = tip' \<rparr>"

definition Nutrition_init :: "int \<Rightarrow> 'd \<Rightarrow> 'd \<Rightarrow> 'd \<Rightarrow> 'd Nutrition" where
  "Nutrition_init calories' proteinG' carbsG' fatG' =
     \<lparr> calories = calories', proteinG = proteinG', carbsG = carbsG', fatG = fatG',
       fiberG = None, sugarG = None, sodiumMg = None \<rparr>"

datatype SubstitutionCategory = vegan | kosher | allergy | preference | availability

fun SubstitutionCategory_rawValue :: "SubstitutionCategory \<Rightarrow> string" where
  "SubstitutionCategory_rawValue vegan = ''Vegan''"
| "SubstitutionCategory_rawValue kosher = ''Kosher''"
| "SubstitutionCategory_rawValue allergy = ''Allergy''"
| "SubstitutionCategory_rawValue preference = ''Preference''"
| "SubstitutionCategory_rawValue availability = ''Availability''"

text \<open>\<^verbatim>\<open>SubstitutionCategory(rawValue:)\<close>, the initialiser the compiler derives.\<close>

definition SubstitutionCategory_init :: "string \<Rightarrow> SubstitutionCategory option" where
  "SubstitutionCategory_init s =
     List.find (\<lambda>c. SubstitutionCategory_rawValue c = s)
       [vegan, kosher, allergy, preference, availability]"

record Substitution =
  original' :: string
  alternative :: string
  reason :: string
  category :: SubstitutionCategory

section \<open>Errors and the platform\<close>

datatype GeminiError =
    missingAPIKey
  | invalidURL
  | invalidResponse
  | httpError int
  | parsingError

text \<open>
  A Swift function that \<^verbatim>\<open>throws\<close> throws any \<^verbatim>\<open>Error\<close>: a case of
  \<^typ>\<open>GeminiError\<close>, or the error of a Foundation call marked \<^verbatim>\<open>try\<close>, which passes
  through the service unchanged.
\<close>

datatype error = Gemini GeminiError | FoundationError

record http_request =
  url :: string
  httpMethod :: string
  contentType :: string
  prompt :: string

text \<open>
  The reply of \<^verbatim>\<open>URLSession.shared.data(for:)\<close>: the body, and the status code when the
  response is an \<^verbatim>\<open>HTTPURLResponse\<close>.
\<close>

record http_reply =
  body :: string
  statusCode :: "int option"

text \<open>
  The Foundation calls of the service are parameters of the model:
  \<^item> \<open>URL_init\<close>: whether \<^verbatim>\<open>URL(string:)\<close> accepts the string;
  \<^item> \<open>dataFor\<close>: \<^verbatim>\<open>URLSession.shared.data(for:)\<close>, \<open>None\<close> when it throws;
  \<^item> \<open>jsonObject\<close>: \<^verbatim>\<open>JSONSerialization.jsonObject(with:)\<close> on the UTF-8 data of a
    text, \<open>None\<close> when it throws;
  \<^item> \<open>lowercased\<close>: \<^verbatim>\<open>String.lowercased()\<close>;
  \<^item> \<open>trimmingWhitespaces\<close>: \<^verbatim>\<open>trimmingCharacters(in: .whitespaces)\<close>;
  \<^item> \<open>describeDouble\<close>: the text of a \<^verbatim>\<open>Double\<close> in a string interpolation.
\<close>

record 'd foundation =
  URL_init :: "string \<Rightarrow> bool"
  dataFor :: "http_request \<Rightarrow> http_reply option"
  jsonObject :: "string \<Rightarrow> 'd any option"
  lowercased :: "string \<Rightarrow> string"
  trimmingWhitespaces :: "string \<Rightarrow> string"
  describeDouble :: "'d \<Rightarrow> string"

section \<open>The response parsers of GeminiService\<close>

definition extractTextFromResponse :: "'d dict \<Rightarrow> string" where
  "extractTextFromResponse json =
     (case do {
             candidates \<leftarrow> getDictArray json ''candidates'';
             first' \<leftarrow> first candidates;
             content \<leftarrow> getDict first' ''content'';
             parts \<leftarrow> getDictArray content ''parts'';
             part \<leftarrow> first parts;
             getString part ''text''
           } of
        Some text \<Rightarrow> text
      | None \<Rightarrow> ''Unable to generate response'')"

definition parseMealType :: "'d foundation \<Rightarrow> string option \<Rightarrow> MealType option" where
  "parseMealType F string =
     (case string of
        None \<Rightarrow> None
      | Some s \<Rightarrow>
          List.find (\<lambda>c. lowercased F (MealType_rawValue c) = lowercased F s)
            MealType_allCases)"

definition parseSubstitutionCategory :: "string option \<Rightarrow> SubstitutionCategory" where
  "parseSubstitutionCategory string =
     (case string of
        None \<Rightarrow> preference
      | Some s \<Rightarrow> orElse (SubstitutionCategory_init s) preference)"

text \<open>The body of the loop over \<^verbatim>\<open>ingredientsData\<close>.\<close>

definition appendIngredient :: "'d Recipe \<Rightarrow> 'd dict \<Rightarrow> 'd Recipe" where
  "appendIngredient recipe ingData =
     recipe\<lparr> ingredients := ingredients recipe @
       [Ingredient_init (orElse (getString ingData ''item'') '''')
          (getDouble ingData ''quantity'')
          (getString ingData ''unit'')
          (getString ingData ''section'')] \<rparr>"

text \<open>The body of the loop over \<^verbatim>\<open>instructionsData.enumerated()\<close>.\<close>

definition appendInstruction :: "'d Recipe \<Rightarrow> nat \<times> 'd dict \<Rightarrow> 'd Recipe" where
  "appendInstruction recipe p =
     (case p of (index, instData) \<Rightarrow>
        recipe\<lparr> instructions := instructions recipe @
          [Instruction_init (int index + 1)
             (orElse (getString instData ''instruction'') '''')
             (getInt instData ''timeMinutes'')
             (getString instData ''tip'')] \<rparr>)"

text \<open>
  \<^verbatim>\<open>text.data(using: .utf8)\<close> never fails. \<^verbatim>\<open>JSONSerialization.jsonObject\<close> is called
  with \<^verbatim>\<open>try\<close> inside the \<^verbatim>\<open>guard\<close>: when it throws, its own error leaves the function,
  and the \<^verbatim>\<open>else\<close> branch, which throws \<^verbatim>\<open>parsingError\<close>, runs only when the cast of the
  decoded value fails. The parameter \<^verbatim>\<open>ingredients\<close> is not used by the source.
\<close>

definition parseRecipeResponse ::
  "('d::zero) foundation \<Rightarrow> 'd dict \<Rightarrow> string list \<Rightarrow> error + 'd Recipe" where
  "parseRecipeResponse F json ingredients' =
     (let text = extractTextFromResponse json in
      case jsonObject F text of
        None \<Rightarrow> Inl FoundationError
      | Some obj \<Rightarrow>
          (case asDict obj of
             None \<Rightarrow> Inl (Gemini parsingError)
           | Some recipeData \<Rightarrow>
               (let recipe = Recipe_init
                      (orElse (getString recipeData ''title'') ''Untitled Recipe'')
                      (getString recipeData ''description'')
                      (orElse (getInt recipeData ''cookTime'') 30)
                      (orElse (getInt recipeData ''prepTime'') 15)
                      (orElse (getInt recipeData ''servings'') 4)
                      medium
                      (getString recipeData ''cuisine'')
                      (parseMealType F (getString recipeData ''mealType''))
                      aiGenerated
                      None;
                    recipe = (case getDictArray recipeData ''ingredients'' of
                        Some ingredientsData \<Rightarrow> foldl appendIngredient recipe ingredientsData
                      | None \<Rightarrow> recipe);
                    recipe = (case getDictArray recipeData ''instructions'' of
                        Some instructionsData \<Rightarrow>
                          foldl appendInstruction recipe (enumerate 0 instructionsData)
                      | None \<Rightarrow> recipe);
                    recipe = (case getDict recipeData ''nutrition'' of
                        Some nutritionData \<Rightarrow>
                          recipe\<lparr> nutrition := Some (Nutrition_init
                            (orElse (getInt nutritionData ''calories'') 0)
                            (orElse (getDouble nutritionData ''proteinG'') 0)
                            (orElse (getDouble nutritionData ''carbsG'') 0)
                            (orElse (getDouble nutritionData ''fatG'') 0)) \<rparr>
                      | None \<Rightarrow> recipe)
                in Inr recipe)))"

definition parseSubstitutionsResponse ::
  "'d foundation \<Rightarrow> 'd dict \<Rightarrow> string \<Rightarrow> error + Substitution list" where
  "parseSubstitutionsResponse F json orig =
     (let text = extractTextFromResponse json in
      case jsonObject F text of
        None \<Rightarrow> Inl FoundationError
      | Some obj \<Rightarrow>
          (case asDictArray obj of
             None \<Rightarrow> Inl (Gemini parsingError)
           | Some substitutionsData \<Rightarrow>
               Inr (map (\<lambda>data.
                 \<lparr> original' = orig,
                   alternative = orElse (getString data ''alternative'') '''',
                   reason = orElse (getString data ''reason'') '''',
                   category = parseSubstitutionCategory (getString data ''category'') \<rparr>)
                 substitutionsData)))"

section \<open>Strings\<close>

text \<open>\<^verbatim>\<open>joined(separator:)\<close>\<close>

fun joined :: "string \<Rightarrow> string list \<Rightarrow> string" where
  "joined sep [] = []"
| "joined sep [x] = x"
| "joined sep (x # y # ys) = x @ sep @ joined sep (y # ys)"

text \<open>The text of an \<^verbatim>\<open>Int\<close> in a string interpolation: decimal, with a sign when negative.\<close>

definition digit :: "nat \<Rightarrow> char" where
  "digit n = ''0123456789'' ! (n mod 10)"

function describeNat :: "nat \<Rightarrow> string" where
  "describeNat n = (if n < 10 then [digit n] else describeNat (n div 10) @ [digit n])"
  by pat_completeness auto
termination
  by (relation "measure id") auto

declare describeNat.simps [simp del]

definition describeInt :: "int \<Rightarrow> string" where
  "describeInt i = (if i < 0 then CHR ''-'' # describeNat (nat (- i)) else describeNat (nat i))"

text \<open>
  A multi-line string literal is its lines joined by a line feed; the indentation of the
  closing delimiter is stripped from every line.
\<close>

definition newline :: string where
  "newline = [CHR 0x0A]"

section \<open>The prompt builders of GeminiService\<close>

definition recipeSchemaLines :: "string list" where
  "recipeSchemaLines =
     [''Return ONLY valid JSON with this exact structure (no markdown, no explanation):'',
      ''{'',
      ''  \"title\": \"Recipe Name\",'',
      ''  \"description\": \"Brief 1-2 sentence description\",'',
      ''  \"cookTime\": 30,'',
      ''  \"prepTime\": 15,'',
      ''  \"servings\": 4,'',
      ''  \"cuisine\": \"cuisine type or null\",'',
      ''  \"mealType\": \"Breakfast, Lunch, Dinner, Dessert, or Snack\",'',
      ''  \"ingredients\": ['',
      ''    {\"item\": \"ingredient name\", \"quantity\": 1.0, \"unit\": \"cup\", \"section\": \"Main\"},'',
      ''    {\"item\": \"ingredient name\", \"quantity\": null, \"unit\": null, \"section\": null}'',
      ''  ],'',
      ''  \"instructions\": ['',
      ''    {\"stepNumber\": 1, \"instruction\": \"detailed step\", \"timeMinutes\": 5, \"tip\": \"helpful tip or null\"}'',
      ''  ],'',
      ''  \"nutrition\": {'',
      ''    \"calories\": 400,'',
      ''    \"proteinG\": 25.0,'',
      ''    \"carbsG\": 30.0,'',
      ''    \"fatG\": 15.0'',
      ''  }'',
      ''}'',
      '''',
      ''Make it creative and delicious!'']"

definition buildRecipeGenerationPrompt ::
  "string list \<Rightarrow> string option \<Rightarrow> Difficulty \<Rightarrow> int \<Rightarrow> string" where
  "buildRecipeGenerationPrompt ingredients' cuisine' difficulty' targetCookTime =
     joined newline
       ([''You are a professional chef. Generate a delicious recipe using these ingredients: ''
           @ joined '', '' ingredients' @ ''.'',
         '''',
         ''Requirements:'',
         (case cuisine' of Some c \<Rightarrow> ''- Cuisine: '' @ c | None \<Rightarrow> ''''),
         ''- Difficulty: '' @ Difficulty_rawValue difficulty',
         ''- Target cooking time: around '' @ describeInt targetCookTime @ '' minutes'',
         '''']
        @ recipeSchemaLines)"

definition displayText :: "'d foundation \<Rightarrow> 'd Ingredient \<Rightarrow> string" where
  "displayText F ing =
     (let text = '''';
          text = (case quantity ing of
                    Some q \<Rightarrow> text @ describeDouble F q @ '' ''
                  | None \<Rightarrow> text);
          text = (case unit ing of Some u \<Rightarrow> text @ u @ '' '' | None \<Rightarrow> text);
          text = text @ item ing
      in trimmingWhitespaces F text)"

definition buildRecipeContext :: "'d foundation \<Rightarrow> 'd Recipe \<Rightarrow> string" where
  "buildRecipeContext F recipe =
     joined newline
       [''Title: '' @ title recipe,
        orElse (recipeDescription recipe) '''',
        '''',
        ''Ingredients:'',
        joined newline (map (\<lambda>i. ''- '' @ displayText F i) (ingredients recipe)),
        '''',
        ''Instructions:'',
        joined newline
          (map (\<lambda>i. describeInt (stepNumber i) @ ''. '' @ instruction i)
             (sort_key stepNumber (instructions recipe)))]"

definition buildSubstitutionPrompt :: "string \<Rightarrow> string list \<Rightarrow> string" where
  "buildSubstitutionPrompt ingredient constraints =
     joined newline
       [''Find 3-5 substitutions for: '' @ ingredient,
        '''',
        (if constraints = [] then ''''
         else ''Dietary constraints: '' @ joined '', '' constraints),
        '''',
        ''Return ONLY valid JSON array (no markdown, no explanation):'',
        ''['',
        ''  {'',
        ''    \"alternative\": \"substitute name\",'',
        ''    \"reason\": \"why this works (1-2 sentences)\",'',
        ''    \"category\": \"Vegan, Kosher, Allergy, Preference, or Availability\"'',
        ''  }'',
        '']'',
        '''',
        ''Focus on practical, accessible substitutes.'']"

datatype Role = user | assistant

record ChatMessage =
  role :: Role
  content :: string

definition buildChatPrompt ::
  "'d foundation \<Rightarrow> 'd Recipe \<Rightarrow> string \<Rightarrow> ChatMessage list \<Rightarrow> string" where
  "buildChatPrompt F recipe question history =
     (let context = buildRecipeContext F recipe in
      joined newline
        [''Recipe Context:'',
         context,
         '''',
         ''Previous conversation:'',
         joined newline
           (map (\<lambda>m. (if role m = user then ''User'' else ''Assistant'') @ '': '' @ content m)
              history),
         '''',
         ''User Question: '' @ question,
         '''',
         ''Please provide a helpful, concise answer about this recipe. Be practical and friendly.''])"

section \<open>The operations of GeminiService\<close>

text \<open>
  An operation returns its result together with the requests it has sent to the network,
  in order. The API key is the value of
  \<^verbatim>\<open>UserDefaults.standard.string(forKey: "apiKey") ?? ""\<close>.
  The request body carries the prompt and a constant generation configuration
  (temperature 0.7, at most 2048 output tokens), which is not modelled.
\<close>

definition baseURL :: string where
  "baseURL = ''https://generativelanguage.googleapis.com/v1beta''"

definition makeRequest ::
  "'d foundation \<Rightarrow> string \<Rightarrow> string \<Rightarrow> string \<Rightarrow> (error + 'd dict) \<times> http_request list" where
  "makeRequest F apiKey prompt' model =
     (let urlString = baseURL @ ''/models/'' @ model @ '':generateContent?key='' @ apiKey in
      if \<not> URL_init F urlString then (Inl (Gemini invalidURL), [])
      else
        (let request = \<lparr> url = urlString, httpMethod = ''POST'',
                          contentType = ''application/json'', prompt = prompt' \<rparr>
         in (case dataFor F request of
               None \<Rightarrow> Inl FoundationError
             | Some reply \<Rightarrow>
                 (case statusCode reply of
                    None \<Rightarrow> Inl (Gemini invalidResponse)
                  | Some code \<Rightarrow>
                      if code \<noteq> 200 then Inl (Gemini (httpError code))
                      else
                        (case jsonObject F (body reply) of
                           None \<Rightarrow> Inl FoundationError
                         | Some obj \<Rightarrow>
                             (case asDict obj of
                                None \<Rightarrow> Inl (Gemini invalidResponse)
                              | Some json \<Rightarrow> Inr json))),
             [request])))"

definition geminiModel :: string where
  "geminiModel = ''gemini-2.0-flash-exp''"

definition generateRecipe ::
  "('d::zero) foundation \<Rightarrow> string \<Rightarrow> string list \<Rightarrow> string option \<Rightarrow> Difficulty \<Rightarrow> int \<Rightarrow>
   (error + 'd Recipe) \<times> http_request list" where
  "generateRecipe F apiKey ingredients' cuisine' difficulty' targetCookTime =
     (if apiKey = [] then (Inl (Gemini missingAPIKey), [])
      else
        (let prompt' = buildRecipeGenerationPrompt ingredients' cuisine' difficulty'
                         targetCookTime
         in case makeRequest F apiKey prompt' geminiModel of
              (Inl e, sent) \<Rightarrow> (Inl e, sent)
            | (Inr response, sent) \<Rightarrow> (parseRecipeResponse F response ingredients', sent)))"

definition chatWithRecipe ::
  "'d foundation \<Rightarrow> string \<Rightarrow> 'd Recipe \<Rightarrow> string \<Rightarrow> ChatMessage list \<Rightarrow>
   (error + string) \<times> http_request list" where
  "chatWithRecipe F apiKey recipe question history =
     (if apiKey = [] then (Inl (Gemini missingAPIKey), [])
      else
        (let prompt' = buildChatPrompt F recipe question history
         in case makeRequest F apiKey prompt' geminiModel of
              (Inl e, sent) \<Rightarrow> (Inl e, sent)
            | (Inr response, sent) \<Rightarrow> (Inr (extractTextFromResponse response), sent)))"

definition findSubstitutions ::
  "'d foundation \<Rightarrow> string \<Rightarrow> string \<Rightarrow> string list \<Rightarrow>
   (error + Substitution list) \<times> http_request list" where
  "findSubstitutions F apiKey ingredient constraints =
     (if apiKey = [] then (Inl (Gemini missingAPIKey), [])
      else
        (let prompt' = buildSubstitutionPrompt ingredient constraints
         in case makeRequest F apiKey prompt' geminiModel of
              (Inl e, sent) \<Rightarrow> (Inl e, sent)
            | (Inr response, sent) \<Rightarrow>
                (parseSubstitutionsResponse F response ingredient, sent)))"

section \<open>Concrete replies\<close>

text \<open>
  The success envelope of the endpoint,
  \<^verbatim>\<open>{candidates: [{content: {parts: [{text: ...}]}}]}\<close>, carrying a given text.
\<close>

definition replyEnvelope :: "string \<Rightarrow> 'd dict" where
  "replyEnvelope text =
     [(''candidates'', NSArray [NSDictionary
        [(''content'', NSDictionary
           [(''parts'', NSArray [NSDictionary [(''text'', NSString text)]])])]])]"

definition asciiLowercased :: "string \<Rightarrow> string" where
  "asciiLowercased s =
     map (\<lambda>c. let n = (of_char c :: nat)
              in if 65 \<le> n \<and> n \<le> 90 then char_of (n + 32) else c) s"

text \<open>
  A platform for running the service on concrete inputs: the network answers every request
  with one fixed reply, and the JSON decoder decodes the texts of a finite table and throws
  on every other text.
\<close>

definition tableFoundation ::
  "http_reply option \<Rightarrow> (string \<times> 'd any) list \<Rightarrow> 'd foundation" where
  "tableFoundation reply table =
     \<lparr> URL_init = (\<lambda>u. True), dataFor = (\<lambda>r. reply), jsonObject = map_of table,
       lowercased = asciiLowercased, trimmingWhitespaces = (\<lambda>s. s),
       describeDouble = (\<lambda>d. '''') \<rparr>"

text \<open>A generation reply, and the value the JSON decoder makes of it.\<close>

definition bowlText :: string where
  "bowlText = ''{\"title\":\"Chicken Rice Bowl\",\"cookTime\":25,\"prepTime\":10,\"servings\":2,\"difficulty\":\"Hard\",\"ingredients\":[{\"item\":\"chicken breast\"}],\"instructions\":[{\"stepNumber\":5,\"instruction\":\"Cook chicken\"}]}''"

definition bowlPayload :: "int dict" where
  "bowlPayload =
     [(''title'', NSString ''Chicken Rice Bowl''),
      (''cookTime'', NSNumber (Some 25) (Some 25)),
      (''prepTime'', NSNumber (Some 10) (Some 10)),
      (''servings'', NSNumber (Some 2) (Some 2)),
      (''difficulty'', NSString ''Hard''),
      (''ingredients'', NSArray [NSDictionary [(''item'', NSString ''chicken breast'')]]),
      (''instructions'', NSArray [NSDictionary
         [(''stepNumber'', NSNumber (Some 5) (Some 5)),
          (''instruction'', NSString ''Cook chicken'')]])]"

text \<open>A reply whose payload supplies a zero and negative integers.\<close>

definition zeroText :: string where
  "zeroText = ''{\"servings\":0,\"cookTime\":-5,\"prepTime\":-1}''"

definition zeroPayload :: "int dict" where
  "zeroPayload =
     [(''servings'', NSNumber (Some 0) (Some 0)),
      (''cookTime'', NSNumber (Some (- 5)) (Some (- 5))),
      (''prepTime'', NSNumber (Some (- 1)) (Some (- 1)))]"

text \<open>A substitution reply that is a JSON object, and one with two suggestions.\<close>

definition objectText :: string where
  "objectText = ''{\"alternative\":\"olive oil\"}''"

definition twoSubstitutionsText :: string where
  "twoSubstitutionsText = ''[{\"alternative\":\"olive oil\",\"reason\":\"similar fat\",\"category\":\"Vegan\"},{\"category\":\"vegan\"}]''"

definition twoSubstitutions :: "int dict list" where
  "twoSubstitutions =
     [[(''alternative'', NSString ''olive oil''), (''reason'', NSString ''similar fat''),
       (''category'', NSString ''Vegan'')],
      [(''category'', NSString ''vegan'')]]"

text \<open>The body of an HTTP reply whose generated text is the empty JSON object.\<close>

definition emptyObjectBody :: string where
  "emptyObjectBody = ''{\"candidates\":[{\"content\":{\"parts\":[{\"text\":\"{}\"}]}}]}''"

definition sampleFoundation :: "int foundation" where
  "sampleFoundation =
     tableFoundation (Some \<lparr> body = emptyObjectBody, statusCode = Some 200 \<rparr>)
       [(emptyObjectBody, NSDictionary (replyEnvelope ''{}'')),
        (''{}'', NSDictionary []),
        (''[]'', NSArray []),
        (bowlText, NSDictionary bowlPayload),
        (zeroText, NSDictionary zeroPayload),
        (objectText, NSDictionary [(''alternative'', NSString ''olive oil'')]),
        (twoSubstitutionsText, NSArray (map NSDictionary twoSubstitutions))]"





definition sampleRecipe :: "int Recipe" where
  "sampleRecipe = Recipe_init ''Soup'' None 30 15 4 easy None None original None"

section \<open>Readings of a payload field\<close>




text \<open>
  An envelope in which the generated text is absent: there is no \<open>candidates\<close> array, or
  the array is empty, or the first candidate has no \<open>content\<close>, or the content has no
  \<open>parts\<close> array or an empty one, or the first part has no \<open>text\<close>.
\<close>

definition partsLackText :: "'d any option \<Rightarrow> bool" where
  "partsLackText parts =
     (case parts of
        None \<Rightarrow> True
      | Some (NSArray []) \<Rightarrow> True
      | Some (NSArray (NSDictionary part # rest)) \<Rightarrow> map_of part ''text'' = None
      | Some other \<Rightarrow> False)"

definition contentLacksText :: "'d any option \<Rightarrow> bool" where
  "contentLacksText contentValue =
     (case contentValue of
        None \<Rightarrow> True
      | Some (NSDictionary kvs) \<Rightarrow> partsLackText (map_of kvs ''parts'')
      | Some other \<Rightarrow> False)"

definition textAbsent :: "'d dict \<Rightarrow> bool" where
  "textAbsent json =
     (case map_of json ''candidates'' of
        None \<Rightarrow> True
      | Some (NSArray []) \<Rightarrow> True
      | Some (NSArray (NSDictionary candidate # rest)) \<Rightarrow>
          contentLacksText (map_of candidate ''content'')
      | Some other \<Rightarrow> False)"

text \<open>
  The generation prompt is its first words, the comma-separated ingredients, and the rest,
  which does not depend on the ingredients.
\<close>

definition promptHead :: string where
  "promptHead =
     ''You are a professional chef. Generate a delicious recipe using these ingredients: ''"

definition promptTail :: "string option \<Rightarrow> Difficulty \<Rightarrow> int \<Rightarrow> string" where
  "promptTail cuisine' difficulty' targetCookTime =
     ''.'' @ newline @ joined newline
       (['''',
         ''Requirements:'',
         (case cuisine' of Some c \<Rightarrow> ''- Cuisine: '' @ c | None \<Rightarrow> ''''),
         ''- Difficulty: '' @ Difficulty_rawValue difficulty',
         ''- Target cooking time: around '' @ describeInt targetCookTime @ '' minutes'',
         '''']
        @ recipeSchemaLines)"

section \<open>Properties of the casts and of the loops\<close>

lemma allDicts_length: "allDicts xs = Some ds \<Longrightarrow> length ds = length xs"
  by (induction xs arbitrary: ds) (auto split: option.splits)

lemma allDicts_map: "allDicts (map NSDictionary ds) = Some ds"
  by (induction ds) auto

lemma allDicts_SomeD: "allDicts xs = Some ds \<Longrightarrow> xs = map NSDictionary ds"
proof (induction xs arbitrary: ds)
  case Nil
  then show ?case by simp
next
  case (Cons x xs)
  then show ?case
    by (cases x) (auto split: option.splits)
qed

text \<open>The two loops of \<^verbatim>\<open>parseRecipeResponse\<close> append one record per array element.\<close>

lemma foldl_appendIngredient:
  "foldl appendIngredient r ds =
     r\<lparr> ingredients := ingredients r @
       map (\<lambda>d. Ingredient_init (orElse (getString d ''item'') '''')
              (getDouble d ''quantity'') (getString d ''unit'') (getString d ''section'')) ds \<rparr>"
  by (induction ds arbitrary: r) (simp_all add: appendIngredient_def)

lemma foldl_appendInstruction:
  "foldl appendInstruction r (enumerate n ds) =
     r\<lparr> instructions := instructions r @
       map (\<lambda>(i, d). Instruction_init (int i + 1)
              (orElse (getString d ''instruction'') '''') (getInt d ''timeMinutes'')
              (getString d ''tip'')) (enumerate n ds) \<rparr>"
  by (induction ds arbitrary: r n) (simp_all add: appendInstruction_def)

lemma extractText_replyEnvelope: "extractTextFromResponse (replyEnvelope t) = t"
  by (simp add: extractTextFromResponse_def replyEnvelope_def getDictArray_def getDict_def
      getString_def)

text \<open>What \<^verbatim>\<open>parseRecipeResponse\<close> returns once the text has been decoded to a dictionary.\<close>

lemma parse_dict:
  assumes "jsonObject F (extractTextFromResponse json) = Some (NSDictionary recipeData)"
  shows "\<exists>r. parseRecipeResponse F json ings = Inr r
     \<and> title r = orElse (getString recipeData ''title'') ''Untitled Recipe''
     \<and> cookTime r = orElse (getInt recipeData ''cookTime'') 30
     \<and> prepTime r = orElse (getInt recipeData ''prepTime'') 15
     \<and> servings r = orElse (getInt recipeData ''servings'') 4
     \<and> difficulty r = medium
     \<and> ingredients r =
         (case getDictArray recipeData ''ingredients'' of
            None \<Rightarrow> []
          | Some ds \<Rightarrow>
              map (\<lambda>d. Ingredient_init (orElse (getString d ''item'') '''')
                     (getDouble d ''quantity'') (getString d ''unit'')
                     (getString d ''section'')) ds)
     \<and> instructions r =
         (case getDictArray recipeData ''instructions'' of
            None \<Rightarrow> []
          | Some ds \<Rightarrow>
              map (\<lambda>(i, d). Instruction_init (int i + 1)
                     (orElse (getString d ''instruction'') '''') (getInt d ''timeMinutes'')
                     (getString d ''tip'')) (enumerate 0 ds))
     \<and> (nutrition r = None \<longleftrightarrow> getDict recipeData ''nutrition'' = None)"
  using assms
  by (simp add: parseRecipeResponse_def Let_def foldl_appendIngredient foldl_appendInstruction
      Recipe_init_def split: option.splits)

lemma parse_Inr_difficulty:
  "parseRecipeResponse F json ings = Inr r \<Longrightarrow> difficulty r = medium"
  by (auto simp: parseRecipeResponse_def Let_def foldl_appendIngredient foldl_appendInstruction
      Recipe_init_def split: option.splits)

subsection \<open>The sample platform on the sample replies\<close>

lemma sample_decodes_empty:
  "jsonObject sampleFoundation (extractTextFromResponse (replyEnvelope ''{}'')) =
     Some (NSDictionary [])"
  by (simp add: extractText_replyEnvelope sampleFoundation_def tableFoundation_def
      emptyObjectBody_def)

lemma sample_decodes_bowl:
  "jsonObject sampleFoundation (extractTextFromResponse (replyEnvelope bowlText)) =
     Some (NSDictionary bowlPayload)"
  by (simp add: extractText_replyEnvelope sampleFoundation_def tableFoundation_def
      emptyObjectBody_def bowlText_def)

lemma sample_decodes_array:
  "jsonObject sampleFoundation (extractTextFromResponse (replyEnvelope ''[]'')) =
     Some (NSArray [])"
  by (simp add: extractText_replyEnvelope sampleFoundation_def tableFoundation_def
      emptyObjectBody_def)

lemma sample_makeRequest:
  "\<exists>sent. makeRequest sampleFoundation ''key'' p m = (Inr (replyEnvelope ''{}''), sent)"
  by (simp add: makeRequest_def sampleFoundation_def tableFoundation_def Let_def)

lemma sample_generate:
  "fst (generateRecipe sampleFoundation ''key'' ings c d t) =
     parseRecipeResponse sampleFoundation (replyEnvelope ''{}'') ings"
proof -
  obtain sent where "makeRequest sampleFoundation ''key''
      (buildRecipeGenerationPrompt ings c d t) geminiModel = (Inr (replyEnvelope ''{}''), sent)"
    using sample_makeRequest by blast
  then show ?thesis
    by (simp add: generateRecipe_def)
qed

subsection \<open>Which errors the stages can raise\<close>

lemma makeRequest_not_missingAPIKey:
  "makeRequest F apiKey p m \<noteq> (Inl (Gemini missingAPIKey), sent)"
  by (auto simp: makeRequest_def Let_def split: option.splits if_splits)

lemma parseRecipeResponse_not_missingAPIKey:
  "parseRecipeResponse F json ings \<noteq> Inl (Gemini missingAPIKey)"
  by (auto simp: parseRecipeResponse_def Let_def split: option.splits)

lemma parseSubstitutionsResponse_not_missingAPIKey:
  "parseSubstitutionsResponse F json orig \<noteq> Inl (Gemini missingAPIKey)"
  by (auto simp: parseSubstitutionsResponse_def Let_def split: option.splits)

lemma sample_rejects:
  "jsonObject sampleFoundation ''not json'' = None"
  "jsonObject sampleFoundation ''Unable to generate response'' = None"
  by (simp_all add: sampleFoundation_def tableFoundation_def emptyObjectBody_def bowlText_def
      zeroText_def objectText_def twoSubstitutionsText_def)

subsection \<open>Joined strings and substrings\<close>

lemma joined_Cons:
  "rest \<noteq> [] \<Longrightarrow> joined sep (x # rest) = x @ sep @ joined sep rest"
  by (cases rest) simp_all

lemma set_joined: "set (joined sep xs) \<subseteq> set sep \<union> (\<Union>x \<in> set xs. set x)"
  by (induction sep xs rule: joined.induct) auto

lemma sublist_joined: "x \<in> set xs \<Longrightarrow> sublist x (joined sep xs)"
proof (induction sep xs rule: joined.induct)
  case (1 sep)
  then show ?case by simp
next
  case (2 sep y)
  then show ?case by simp
next
  case (3 sep y z zs)
  show ?case
  proof (cases "x = y")
    case True
    then show ?thesis by simp
  next
    case False
    with 3 have "sublist x (joined sep (z # zs))" by simp
    then have "sublist x ((y @ sep) @ joined sep (z # zs))"
      by (rule sublist_order.order.trans) (rule sublist_append_leftI)
    then show ?thesis by simp
  qed
qed

lemma digit_in: "digit n \<in> set ''0123456789''"
  unfolding digit_def by (rule nth_mem) simp

lemma digit_not_C: "digit n \<noteq> CHR ''C''"
proof
  assume "digit n = CHR ''C''"
  with digit_in [of n] have "CHR ''C'' \<in> set ''0123456789''" by simp
  then show False by simp
qed

lemma no_C_in_describeNat: "CHR ''C'' \<notin> set (describeNat n)"
proof (induction n rule: describeNat.induct)
  case (1 n)
  show ?case
  proof (cases "n < 10")
    case True
    then have "describeNat n = [digit n]"
      by (subst describeNat.simps) simp
    then show ?thesis
      using digit_not_C [of n] by auto
  next
    case False
    then have "describeNat n = describeNat (n div 10) @ [digit n]"
      by (subst describeNat.simps) simp
    moreover from False 1 have "CHR ''C'' \<notin> set (describeNat (n div 10))"
      by simp
    ultimately show ?thesis
      using digit_not_C [of n] by auto
  qed
qed

lemma no_C_in_describeInt: "CHR ''C'' \<notin> set (describeInt i)"
  using no_C_in_describeNat [of "nat i"] no_C_in_describeNat [of "nat (- i)"]
  by (simp add: describeInt_def)

text \<open>
  An occurrence of a word that starts with \<open>c\<close> in \<open>A @ J @ B\<close> lies inside \<open>J\<close> when \<open>c\<close>
  occurs neither in \<open>A\<close> nor in \<open>B\<close> and \<open>B\<close> does not start with a later letter of the word.
\<close>

lemma sublist_between:
  assumes A: "c \<notin> set A" and B: "c \<notin> set B" and h: "B = [] \<or> hd B \<notin> set p"
  shows "sublist (c # p) (A @ J @ B) \<longleftrightarrow> sublist (c # p) J"
proof
  assume "sublist (c # p) J"
  then obtain ps ss where "J = ps @ (c # p) @ ss"
    by (auto simp: sublist_def)
  then have "A @ J @ B = (A @ ps) @ (c # p) @ (ss @ B)" by simp
  then show "sublist (c # p) (A @ J @ B)"
    unfolding sublist_def by blast
next
  assume s: "sublist (c # p) (A @ J @ B)"
  have notA: "\<not> sublist (c # p) A"
    using A set_mono_sublist [of "c # p" A] by auto
  have notB: "\<not> sublist (c # p) B"
    using B set_mono_sublist [of "c # p" B] by auto
  have 1: "sublist (c # p) (J @ B)"
  proof -
    from s notA consider "sublist (c # p) (J @ B)"
      | xs1 xs2 where "c # p = xs1 @ xs2" "suffix xs1 A" "prefix xs2 (J @ B)"
      by (auto simp: sublist_append [of _ A])
    then show ?thesis
    proof cases
      case 1
      then show ?thesis .
    next
      case 2
      show ?thesis
      proof (cases xs1)
        case Nil
        with 2 show ?thesis by simp
      next
        case (Cons y ys)
        with 2 have "c \<in> set xs1" by simp
        with 2(2) have "c \<in> set A" using set_mono_suffix by blast
        with A show ?thesis by simp
      qed
    qed
  qed
  from 1 notB consider "sublist (c # p) J"
    | xs1 xs2 where "c # p = xs1 @ xs2" "suffix xs1 J" "prefix xs2 B"
    by (auto simp: sublist_append [of _ J])
  then show "sublist (c # p) J"
  proof cases
    case 1
    then show ?thesis .
  next
    case 2
    show ?thesis
    proof (cases xs2)
      case Nil
      with 2 show ?thesis by simp
    next
      case (Cons y ys)
      with 2(3) obtain B' where B': "B = y # B'"
        by (cases B) auto
      show ?thesis
      proof (cases xs1)
        case Nil
        with 2(1) Cons have "y = c" by simp
        with B' B show ?thesis by simp
      next
        case (Cons z zs)
        with 2(1) \<open>xs2 = y # ys\<close> have "y \<in> set p" by auto
        with B' h show ?thesis by simp
      qed
    qed
  qed
qed

subsection \<open>The shape of the generation prompt\<close>

lemma prompt_split:
  "buildRecipeGenerationPrompt ings cuisine' d t =
     promptHead @ joined '', '' ings @ promptTail cuisine' d t"
proof -
  have "joined newline ((promptHead @ joined '', '' ings @ ''.'') # '''' # rest) =
      promptHead @ joined '', '' ings @ ''.'' @ newline @ joined newline ('''' # rest)"
    for rest
    by (simp only: joined.simps append_assoc)
  then show ?thesis
    unfolding buildRecipeGenerationPrompt_def promptTail_def promptHead_def append_Cons
    by (simp only: append_assoc)
qed

lemma prompt_contains_ingredient:
  assumes "i \<in> set ings"
  shows "sublist i (buildRecipeGenerationPrompt ings cuisine' d t)"
proof -
  from assms have "sublist i (joined '', '' ings)" by (rule sublist_joined)
  moreover have "sublist (joined '', '' ings) (buildRecipeGenerationPrompt ings cuisine' d t)"
    unfolding prompt_split by (rule sublist_appendI)
  ultimately show ?thesis by (rule sublist_order.order.trans)
qed

lemma no_C_in_promptHead: "CHR ''C'' \<notin> set promptHead"
  by (simp add: promptHead_def)

lemma no_C_in_recipeSchemaLines: "l \<in> set recipeSchemaLines \<Longrightarrow> CHR ''C'' \<notin> set l"
  unfolding recipeSchemaLines_def by auto

lemma no_C_in_joined:
  assumes "c \<notin> set sep" and "\<And>l. l \<in> set ls \<Longrightarrow> c \<notin> set l"
  shows "c \<notin> set (joined sep ls)"
  using assms set_joined [of sep ls] by auto

lemma no_C_in_promptTail: "CHR ''C'' \<notin> set (promptTail None d t)"
proof -
  have r: "CHR ''C'' \<notin> set (Difficulty_rawValue d)"
    by (cases d) simp_all
  have "CHR ''C'' \<notin> set (joined newline (['''',
         ''Requirements:'',
         '''',
         ''- Difficulty: '' @ Difficulty_rawValue d,
         ''- Target cooking time: around '' @ describeInt t @ '' minutes'',
         ''''] @ recipeSchemaLines))"
  proof (rule no_C_in_joined)
    show "CHR ''C'' \<notin> set newline" by (simp add: newline_def)
  next
    fix l
    assume "l \<in> set (['''',
         ''Requirements:'',
         '''',
         ''- Difficulty: '' @ Difficulty_rawValue d,
         ''- Target cooking time: around '' @ describeInt t @ '' minutes'',
         ''''] @ recipeSchemaLines)"
    then consider "l = ''''" | "l = ''Requirements:''"
      | "l = ''- Difficulty: '' @ Difficulty_rawValue d"
      | "l = ''- Target cooking time: around '' @ describeInt t @ '' minutes''"
      | "l \<in> set recipeSchemaLines"
      by auto
    then show "CHR ''C'' \<notin> set l"
    proof cases
      case 1
      then show ?thesis by simp
    next
      case 2
      then show ?thesis by simp
    next
      case 3
      then show ?thesis using r by simp
    next
      case 4
      then show ?thesis using no_C_in_describeInt [of t] by simp
    next
      case 5
      then show ?thesis by (rule no_C_in_recipeSchemaLines)
    qed
  qed
  then show ?thesis
    by (simp add: promptTail_def newline_def)
qed

lemma promptTail_hd: "hd (promptTail c d t) = CHR ''.''"
  by (simp add: promptTail_def)

lemma promptTail_not_Nil: "promptTail c d t \<noteq> []"
  by (simp add: promptTail_def)

lemma cuisine_word_in_prompt:
  "sublist ''Cuisine:'' (buildRecipeGenerationPrompt ings None d t) \<longleftrightarrow>
   sublist ''Cuisine:'' (joined '', '' ings)"
proof -
  have "sublist (CHR ''C'' # ''uisine:'')
          (promptHead @ joined '', '' ings @ promptTail None d t) \<longleftrightarrow>
        sublist (CHR ''C'' # ''uisine:'') (joined '', '' ings)"
  proof (rule sublist_between)
    show "CHR ''C'' \<notin> set promptHead" by (rule no_C_in_promptHead)
    show "CHR ''C'' \<notin> set (promptTail None d t)" by (rule no_C_in_promptTail)
    show "promptTail None d t = [] \<or> hd (promptTail None d t) \<notin> set ''uisine:''"
      by (simp add: promptTail_hd)
  qed
  then show ?thesis by (simp only: prompt_split)
qed

section \<open>Claims\<close>

text \<open>
  C1. Whenever the extracted text of a generation reply decodes to a JSON object, the
  parser returns a recipe whose difficulty is \<open>medium\<close>, whatever the payload holds (a
  \<open>difficulty\<close> field included); and whatever difficulty a generation request asks for, a
  recipe it returns has difficulty \<open>medium\<close>.
\<close>

theorem difficulty_forced_medium:
  "(jsonObject F (extractTextFromResponse json) = Some (NSDictionary recipeData) \<longrightarrow>
      (\<exists>r. parseRecipeResponse F json ings = Inr r \<and> difficulty r = medium)) \<and>
   (\<forall>r. fst (generateRecipe F apiKey ings cuisine' requested targetCookTime) = Inr r \<longrightarrow>
      difficulty r = medium)"
proof (intro conjI impI allI)
  assume "jsonObject F (extractTextFromResponse json) = Some (NSDictionary recipeData)"
  from parse_dict [OF this, of ings]
  show "\<exists>r. parseRecipeResponse F json ings = Inr r \<and> difficulty r = medium"
    by blast
next
  fix r
  assume "fst (generateRecipe F apiKey ings cuisine' requested targetCookTime) = Inr r"
  then show "difficulty r = medium"
    by (auto simp: generateRecipe_def Let_def dest: parse_Inr_difficulty
        split: if_splits prod.splits sum.splits)
qed

theorem difficulty_forced_medium_witness:
  "jsonObject sampleFoundation (extractTextFromResponse (replyEnvelope bowlText)) =
     Some (NSDictionary bowlPayload) \<and>
   (\<exists>r. parseRecipeResponse sampleFoundation (replyEnvelope bowlText) [''chicken breast''] = Inr r \<and>
      difficulty r = medium) \<and>
   (\<exists>r. fst (generateRecipe sampleFoundation ''key'' [''chicken breast''] None hard 45) = Inr r \<and>
      difficulty r = medium)"
proof -
  note inst = difficulty_forced_medium [of sampleFoundation "replyEnvelope bowlText" bowlPayload
      "[''chicken breast'']" "''key''" None hard 45]
  obtain r where
    "parseRecipeResponse sampleFoundation (replyEnvelope ''{}'') [''chicken breast''] = Inr r"
    using parse_dict [OF sample_decodes_empty] by blast
  then have r:
    "fst (generateRecipe sampleFoundation ''key'' [''chicken breast''] None hard 45) = Inr r"
    by (simp add: sample_generate)
  have "difficulty r = medium"
    using inst r by blast
  with r have g:
    "\<exists>r. fst (generateRecipe sampleFoundation ''key'' [''chicken breast''] None hard 45) = Inr r \<and>
       difficulty r = medium"
    by blast
  have p:
    "\<exists>r. parseRecipeResponse sampleFoundation (replyEnvelope bowlText) [''chicken breast''] = Inr r \<and>
       difficulty r = medium"
    using inst sample_decodes_bowl by blast
  show ?thesis
    using sample_decodes_bowl p g by (intro conjI)
qed

text \<open>
  C2. Whenever the extracted text decodes to a JSON object whose \<open>instructions\<close> entry is
  an array of \<open>N\<close> objects, the parser returns a recipe with exactly \<open>N\<close> instructions; their
  step numbers are \<open>1, ..., N\<close> in array order, whatever \<open>stepNumber\<close> fields the objects
  carry, and the \<open>i\<close>-th instruction takes its text from the \<open>i\<close>-th object.
\<close>

theorem instructions_numbered_from_one:
  assumes "jsonObject F (extractTextFromResponse json) = Some (NSDictionary recipeData)"
    and "map_of recipeData ''instructions'' = Some (NSArray (map NSDictionary steps))"
  shows "\<exists>r. parseRecipeResponse F json ings = Inr r \<and>
           length (instructions r) = length steps \<and>
           map stepNumber (instructions r) = map int [1 ..< Suc (length steps)] \<and>
           map instruction (instructions r) =
             map (\<lambda>d. orElse (getString d ''instruction'') '''') steps"
proof -
  have arr: "getDictArray recipeData ''instructions'' = Some steps"
    using assms(2) by (simp add: getDictArray_def allDicts_map)
  obtain r where r: "parseRecipeResponse F json ings = Inr r"
    and ins: "instructions r =
         (case getDictArray recipeData ''instructions'' of
            None \<Rightarrow> []
          | Some ds \<Rightarrow>
              map (\<lambda>(i, d). Instruction_init (int i + 1)
                     (orElse (getString d ''instruction'') '''') (getInt d ''timeMinutes'')
                     (getString d ''tip'')) (enumerate 0 ds))"
    using parse_dict [OF assms(1), of ings] by blast
  have len: "length (instructions r) = length steps"
    by (simp add: ins arr)
  have "map stepNumber (instructions r) = map (\<lambda>p. int (fst p) + 1) (enumerate 0 steps)"
    by (simp add: ins arr Instruction_init_def case_prod_beta)
  also have "\<dots> = map (\<lambda>i. int i + 1) (map fst (enumerate 0 steps))"
    by (simp only: map_map o_def)
  also have "\<dots> = map (\<lambda>i. int i + 1) [0 ..< length steps]"
    by simp
  also have "\<dots> = map int (map Suc [0 ..< length steps])"
    by (simp add: o_def add.commute)
  also have "\<dots> = map int [1 ..< Suc (length steps)]"
    by (simp only: map_Suc_upt One_nat_def)
  finally have num: "map stepNumber (instructions r) = map int [1 ..< Suc (length steps)]" .
  have "map instruction (instructions r) =
          map (\<lambda>p. orElse (getString (snd p) ''instruction'') '''') (enumerate 0 steps)"
    by (simp add: ins arr Instruction_init_def case_prod_beta)
  also have "\<dots> = map (\<lambda>d. orElse (getString d ''instruction'') '''')
                      (map snd (enumerate 0 steps))"
    by (simp only: map_map o_def)
  finally have texts: "map instruction (instructions r) =
      map (\<lambda>d. orElse (getString d ''instruction'') '''') steps"
    by simp
  from r len num texts show ?thesis by blast
qed

theorem instructions_numbered_from_one_witness:
  "jsonObject sampleFoundation (extractTextFromResponse (replyEnvelope bowlText)) =
     Some (NSDictionary bowlPayload) \<and>
   map_of bowlPayload ''instructions'' =
     Some (NSArray (map NSDictionary
       [[(''stepNumber'', NSNumber (Some 5) (Some 5)),
         (''instruction'', NSString ''Cook chicken'')]])) \<and>
   (\<exists>r. parseRecipeResponse sampleFoundation (replyEnvelope bowlText) [] = Inr r \<and>
      length (instructions r) = 1 \<and>
      map stepNumber (instructions r) = [1] \<and>
      map instruction (instructions r) = [''Cook chicken''])"
proof -
  have a: "map_of bowlPayload ''instructions'' =
     Some (NSArray (map NSDictionary
       [[(''stepNumber'', NSNumber (Some 5) (Some (5::int))),
         (''instruction'', NSString ''Cook chicken'')]]))"
    by (simp add: bowlPayload_def)
  from instructions_numbered_from_one [OF sample_decodes_bowl a, of "[]"]
  have "\<exists>r. parseRecipeResponse sampleFoundation (replyEnvelope bowlText) [] = Inr r \<and>
      length (instructions r) = 1 \<and>
      map stepNumber (instructions r) = [1] \<and>
      map instruction (instructions r) = [''Cook chicken'']"
    by (simp add: getString_def orElse_def)
  with sample_decodes_bowl a show ?thesis by blast
qed

text \<open>
  C3. The claim is that an envelope without generated text makes recipe generation and
  substitution parsing fail with an error of its own, distinct from the error of a
  malformed payload. The envelope \<^verbatim>\<open>{}\<close>, which has no candidates, gives the same result
  as an envelope whose text is present and reads \<open>Unable to generate response\<close>, and the
  same error as an envelope whose text is present and is not JSON.
\<close>

theorem absent_text_has_no_error_of_its_own:
  "textAbsent ([] :: int dict) \<and>
   parseRecipeResponse sampleFoundation [] [] =
     parseRecipeResponse sampleFoundation (replyEnvelope ''Unable to generate response'') [] \<and>
   parseRecipeResponse sampleFoundation [] [] = Inl FoundationError \<and>
   parseRecipeResponse sampleFoundation (replyEnvelope ''not json'') [] = Inl FoundationError \<and>
   parseSubstitutionsResponse sampleFoundation [] ''butter'' = Inl FoundationError \<and>
   parseSubstitutionsResponse sampleFoundation (replyEnvelope ''not json'') ''butter'' =
     Inl FoundationError"
proof -
  have "extractTextFromResponse ([] :: int dict) = ''Unable to generate response''"
    by (simp add: extractTextFromResponse_def getDictArray_def)
  then show ?thesis
    by (simp add: textAbsent_def parseRecipeResponse_def parseSubstitutionsResponse_def
        extractText_replyEnvelope sample_rejects)
qed

text \<open>
  C3, as the code has it. For an envelope without generated text the extraction step does
  not fail: it yields the text \<open>Unable to generate response\<close>. Recipe and substitution
  parsing then behave as on a reply that carries this text, and fail with the JSON
  decoder's error when the decoder throws on it, as on any other text that is not JSON.
\<close>

theorem absent_text_becomes_placeholder:
  "textAbsent json \<longrightarrow>
     extractTextFromResponse json = ''Unable to generate response'' \<and>
     parseRecipeResponse F json ings =
       parseRecipeResponse F (replyEnvelope ''Unable to generate response'') ings \<and>
     parseSubstitutionsResponse F json orig =
       parseSubstitutionsResponse F (replyEnvelope ''Unable to generate response'') orig \<and>
     (jsonObject F ''Unable to generate response'' = None \<longrightarrow>
        parseRecipeResponse F json ings = Inl FoundationError \<and>
        parseSubstitutionsResponse F json orig = Inl FoundationError)"
proof
  assume absent: "textAbsent json"
  have ex: "extractTextFromResponse json = ''Unable to generate response''"
    using absent
    by (auto simp: textAbsent_def contentLacksText_def partsLackText_def
        extractTextFromResponse_def getDictArray_def getDict_def getString_def
        split: option.splits any.splits list.splits)
  then show "extractTextFromResponse json = ''Unable to generate response'' \<and>
     parseRecipeResponse F json ings =
       parseRecipeResponse F (replyEnvelope ''Unable to generate response'') ings \<and>
     parseSubstitutionsResponse F json orig =
       parseSubstitutionsResponse F (replyEnvelope ''Unable to generate response'') orig \<and>
     (jsonObject F ''Unable to generate response'' = None \<longrightarrow>
        parseRecipeResponse F json ings = Inl FoundationError \<and>
        parseSubstitutionsResponse F json orig = Inl FoundationError)"
    by (simp add: parseRecipeResponse_def parseSubstitutionsResponse_def
        extractText_replyEnvelope)
qed

theorem absent_text_becomes_placeholder_witness:
  "textAbsent ([(''candidates'', NSArray [])] :: int dict) \<and>
   extractTextFromResponse ([(''candidates'', NSArray [])] :: int dict) =
     ''Unable to generate response'' \<and>
   jsonObject sampleFoundation ''Unable to generate response'' = None \<and>
   parseRecipeResponse sampleFoundation [(''candidates'', NSArray [])] [] =
     Inl FoundationError \<and>
   parseSubstitutionsResponse sampleFoundation [(''candidates'', NSArray [])] ''butter'' =
     Inl FoundationError"
proof -
  have a: "textAbsent ([(''candidates'', NSArray [])] :: int dict)"
    by (simp add: textAbsent_def)
  note inst = absent_text_becomes_placeholder [of "[(''candidates'', NSArray [])]"
      sampleFoundation "[]" "''butter''", rule_format, OF a]
  from inst a sample_rejects(2) show ?thesis by blast
qed

text \<open>
  C4. The claim is that a substitution reply whose text does not parse as a JSON array of
  objects fails with \<open>parsingError\<close>. A text that is not JSON at all makes the JSON decoder
  throw, and that error, not \<open>parsingError\<close>, leaves \<open>parseSubstitutionsResponse\<close>.
\<close>

theorem malformed_text_is_not_parsingError:
  "jsonObject sampleFoundation (extractTextFromResponse (replyEnvelope ''not json'')) = None \<and>
   parseSubstitutionsResponse sampleFoundation (replyEnvelope ''not json'') ''butter'' =
     Inl FoundationError \<and>
   parseSubstitutionsResponse sampleFoundation (replyEnvelope ''not json'') ''butter'' \<noteq>
     Inl (Gemini parsingError)"
  by (simp add: parseSubstitutionsResponse_def extractText_replyEnvelope sample_rejects)

text \<open>
  C4, as the code has it. When the JSON decoder throws on the extracted text, the call
  fails with the decoder's error; when the text decodes to anything but an array of objects,
  the call fails with \<open>parsingError\<close>; in both cases nothing is returned. When the text
  decodes to an array of objects, the call returns exactly one substitution per object, in
  array order, so the empty array gives no substitution and no error.
\<close>

theorem substitutions_per_element:
  "(jsonObject F (extractTextFromResponse json) = None \<longrightarrow>
      parseSubstitutionsResponse F json orig = Inl FoundationError) \<and>
   (\<forall>v. jsonObject F (extractTextFromResponse json) = Some v \<and>
        (\<forall>ds. v \<noteq> NSArray (map NSDictionary ds)) \<longrightarrow>
      parseSubstitutionsResponse F json orig = Inl (Gemini parsingError)) \<and>
   (\<forall>ds. jsonObject F (extractTextFromResponse json) = Some (NSArray (map NSDictionary ds)) \<longrightarrow>
      (\<exists>subs. parseSubstitutionsResponse F json orig = Inr subs \<and>
         length subs = length ds \<and>
         (\<forall>i < length ds.
            subs ! i =
              \<lparr> original' = orig,
                alternative = orElse (getString (ds ! i) ''alternative'') '''',
                reason = orElse (getString (ds ! i) ''reason'') '''',
                category = parseSubstitutionCategory (getString (ds ! i) ''category'') \<rparr>))) \<and>
   (jsonObject F (extractTextFromResponse json) = Some (NSArray []) \<longrightarrow>
      parseSubstitutionsResponse F json orig = Inr [])"
proof (intro conjI impI allI)
  assume "jsonObject F (extractTextFromResponse json) = None"
  then show "parseSubstitutionsResponse F json orig = Inl FoundationError"
    by (simp add: parseSubstitutionsResponse_def)
next
  fix v
  assume a: "jsonObject F (extractTextFromResponse json) = Some v \<and>
    (\<forall>ds. v \<noteq> NSArray (map NSDictionary ds))"
  have "asDictArray v = None"
  proof (cases "asDictArray v")
    case None
    then show ?thesis .
  next
    case (Some ds)
    then have "v = NSArray (map NSDictionary ds)"
      by (cases v) (auto dest: allDicts_SomeD)
    with a show ?thesis by blast
  qed
  with a show "parseSubstitutionsResponse F json orig = Inl (Gemini parsingError)"
    by (simp add: parseSubstitutionsResponse_def)
next
  fix ds
  assume "jsonObject F (extractTextFromResponse json) = Some (NSArray (map NSDictionary ds))"
  then show "\<exists>subs. parseSubstitutionsResponse F json orig = Inr subs \<and>
         length subs = length ds \<and>
         (\<forall>i < length ds.
            subs ! i =
              \<lparr> original' = orig,
                alternative = orElse (getString (ds ! i) ''alternative'') '''',
                reason = orElse (getString (ds ! i) ''reason'') '''',
                category = parseSubstitutionCategory (getString (ds ! i) ''category'') \<rparr>)"
    by (simp add: parseSubstitutionsResponse_def allDicts_map)
next
  assume "jsonObject F (extractTextFromResponse json) = Some (NSArray [])"
  then show "parseSubstitutionsResponse F json orig = Inr []"
    by (simp add: parseSubstitutionsResponse_def)
qed

theorem substitutions_per_element_witness:
  "jsonObject sampleFoundation (extractTextFromResponse (replyEnvelope ''not json'')) = None \<and>
   parseSubstitutionsResponse sampleFoundation (replyEnvelope ''not json'') ''butter'' =
     Inl FoundationError \<and>
   jsonObject sampleFoundation (extractTextFromResponse (replyEnvelope objectText)) =
     Some (NSDictionary [(''alternative'', NSString ''olive oil'')]) \<and>
   parseSubstitutionsResponse sampleFoundation (replyEnvelope objectText) ''butter'' =
     Inl (Gemini parsingError) \<and>
   jsonObject sampleFoundation (extractTextFromResponse (replyEnvelope twoSubstitutionsText)) =
     Some (NSArray (map NSDictionary twoSubstitutions)) \<and>
   (\<exists>subs. parseSubstitutionsResponse sampleFoundation (replyEnvelope twoSubstitutionsText)
        ''butter'' = Inr subs \<and>
      length subs = 2 \<and>
      subs ! 0 = \<lparr> original' = ''butter'', alternative = ''olive oil'',
                  reason = ''similar fat'', category = vegan \<rparr> \<and>
      subs ! 1 = \<lparr> original' = ''butter'', alternative = '''', reason = '''',
                  category = preference \<rparr>) \<and>
   jsonObject sampleFoundation (extractTextFromResponse (replyEnvelope ''[]'')) =
     Some (NSArray []) \<and>
   parseSubstitutionsResponse sampleFoundation (replyEnvelope ''[]'') ''butter'' = Inr []"
proof -
  have n: "jsonObject sampleFoundation (extractTextFromResponse (replyEnvelope ''not json'')) =
      None"
    by (simp add: extractText_replyEnvelope sample_rejects)
  have ob: "jsonObject sampleFoundation (extractTextFromResponse (replyEnvelope objectText)) =
      Some (NSDictionary [(''alternative'', NSString ''olive oil'')])"
    by (simp add: extractText_replyEnvelope sampleFoundation_def tableFoundation_def
        emptyObjectBody_def bowlText_def zeroText_def objectText_def)
  have two: "jsonObject sampleFoundation
      (extractTextFromResponse (replyEnvelope twoSubstitutionsText)) =
      Some (NSArray (map NSDictionary twoSubstitutions))"
    by (simp add: extractText_replyEnvelope sampleFoundation_def tableFoundation_def
        emptyObjectBody_def bowlText_def zeroText_def objectText_def twoSubstitutionsText_def)
  note none = substitutions_per_element [of sampleFoundation "replyEnvelope ''not json''"
      "''butter''", THEN conjunct1, rule_format, OF n]
  have shape: "parseSubstitutionsResponse sampleFoundation (replyEnvelope objectText)
      ''butter'' = Inl (Gemini parsingError)"
    using substitutions_per_element [of sampleFoundation "replyEnvelope objectText"
        "''butter''", THEN conjunct2, THEN conjunct1, rule_format,
        of "NSDictionary [(''alternative'', NSString ''olive oil'')]"] ob
    by simp
  have "\<exists>subs. parseSubstitutionsResponse sampleFoundation (replyEnvelope twoSubstitutionsText)
        ''butter'' = Inr subs \<and>
      length subs = 2 \<and>
      subs ! 0 = \<lparr> original' = ''butter'', alternative = ''olive oil'',
                  reason = ''similar fat'', category = vegan \<rparr> \<and>
      subs ! 1 = \<lparr> original' = ''butter'', alternative = '''', reason = '''',
                  category = preference \<rparr>"
    using substitutions_per_element [of sampleFoundation "replyEnvelope twoSubstitutionsText"
        "''butter''", THEN conjunct2, THEN conjunct2, THEN conjunct1, rule_format, OF two]
    by (simp add: twoSubstitutions_def getString_def orElse_def parseSubstitutionCategory_def
        SubstitutionCategory_init_def less_Suc_eq all_conj_distrib numeral_2_eq_2)
  moreover note empty = substitutions_per_element [of sampleFoundation "replyEnvelope ''[]''"
      "''butter''", THEN conjunct2, THEN conjunct2, THEN conjunct2, rule_format,
      OF sample_decodes_array]
  ultimately show ?thesis
    using n none ob shape two sample_decodes_array empty by (intro conjI)
qed

text \<open>
  C5. With an empty API key each of \<open>generateRecipe\<close>, \<open>chatWithRecipe\<close> and
  \<open>findSubstitutions\<close> fails with \<open>missingAPIKey\<close> and sends no request to the network;
  with a non-empty API key none of them fails with \<open>missingAPIKey\<close>.
\<close>

theorem missing_key_guard:
  "(apiKey = [] \<longrightarrow>
      generateRecipe F apiKey ings cuisine' requested targetCookTime =
        (Inl (Gemini missingAPIKey), []) \<and>
      chatWithRecipe F apiKey recipe question history = (Inl (Gemini missingAPIKey), []) \<and>
      findSubstitutions F apiKey ingredient constraints = (Inl (Gemini missingAPIKey), [])) \<and>
   (apiKey \<noteq> [] \<longrightarrow>
      fst (generateRecipe F apiKey ings cuisine' requested targetCookTime) \<noteq>
        Inl (Gemini missingAPIKey) \<and>
      fst (chatWithRecipe F apiKey recipe question history) \<noteq> Inl (Gemini missingAPIKey) \<and>
      fst (findSubstitutions F apiKey ingredient constraints) \<noteq> Inl (Gemini missingAPIKey))"
proof (intro conjI impI)
  assume "apiKey = []"
  then show "generateRecipe F apiKey ings cuisine' requested targetCookTime =
      (Inl (Gemini missingAPIKey), [])"
    and "chatWithRecipe F apiKey recipe question history = (Inl (Gemini missingAPIKey), [])"
    and "findSubstitutions F apiKey ingredient constraints = (Inl (Gemini missingAPIKey), [])"
    by (simp_all add: generateRecipe_def chatWithRecipe_def findSubstitutions_def)
next
  assume key: "apiKey \<noteq> []"
  show "fst (generateRecipe F apiKey ings cuisine' requested targetCookTime) \<noteq>
      Inl (Gemini missingAPIKey)"
    using key makeRequest_not_missingAPIKey [of F apiKey]
      parseRecipeResponse_not_missingAPIKey [of F]
    by (auto simp: generateRecipe_def Let_def split: prod.splits sum.splits)
  show "fst (chatWithRecipe F apiKey recipe question history) \<noteq> Inl (Gemini missingAPIKey)"
    using key makeRequest_not_missingAPIKey [of F apiKey]
    by (auto simp: chatWithRecipe_def Let_def split: prod.splits sum.splits)
  show "fst (findSubstitutions F apiKey ingredient constraints) \<noteq> Inl (Gemini missingAPIKey)"
    using key makeRequest_not_missingAPIKey [of F apiKey]
      parseSubstitutionsResponse_not_missingAPIKey [of F]
    by (auto simp: findSubstitutions_def Let_def split: prod.splits sum.splits)
qed

theorem missing_key_guard_witness:
  "generateRecipe sampleFoundation '''' [''rice''] None hard 45 =
     (Inl (Gemini missingAPIKey), []) \<and>
   chatWithRecipe sampleFoundation '''' sampleRecipe ''How long?'' [] =
     (Inl (Gemini missingAPIKey), []) \<and>
   findSubstitutions sampleFoundation '''' ''butter'' [''Vegan''] =
     (Inl (Gemini missingAPIKey), []) \<and>
   fst (generateRecipe sampleFoundation ''key'' [''rice''] None hard 45) \<noteq>
     Inl (Gemini missingAPIKey) \<and>
   fst (chatWithRecipe sampleFoundation ''key'' sampleRecipe ''How long?'' []) \<noteq>
     Inl (Gemini missingAPIKey) \<and>
   fst (findSubstitutions sampleFoundation ''key'' ''butter'' [''Vegan'']) \<noteq>
     Inl (Gemini missingAPIKey)"
  using missing_key_guard [of "''''" sampleFoundation "[''rice'']" None hard 45 sampleRecipe
      "''How long?''" "[]" "''butter''" "[''Vegan'']"]
    missing_key_guard [of "''key''" sampleFoundation "[''rice'']" None hard 45 sampleRecipe
      "''How long?''" "[]" "''butter''" "[''Vegan'']"]
  by simp






text \<open>
  C8. The claim is that every recipe the parser returns has \<open>servings \<ge> 1\<close>,
  \<open>cookTime \<ge> 0\<close> and \<open>prepTime \<ge> 0\<close>, also for a payload that supplies a zero or
  negative integers. On the reply \<^verbatim>\<open>{"servings":0,"cookTime":-5,"prepTime":-1}\<close> the parser
  returns a recipe with exactly these values: it copies the integers of the payload
  unchecked.
\<close>

theorem zero_servings_pass_unchecked:
  "\<exists>r. parseRecipeResponse sampleFoundation (replyEnvelope zeroText) [] = Inr r \<and>
       servings r = 0 \<and> cookTime r = - 5 \<and> prepTime r = - 1 \<and> totalTime r = Some (- 6)"
proof -
  have "jsonObject sampleFoundation (extractTextFromResponse (replyEnvelope zeroText)) =
      Some (NSDictionary zeroPayload)"
    by (simp add: extractText_replyEnvelope sampleFoundation_def tableFoundation_def
        emptyObjectBody_def bowlText_def zeroText_def)
  from parse_dict [OF this, of "[]"] show ?thesis
    by (auto simp: zeroPayload_def getInt_def orElse_def isInt_def Int_min_def Int_max_def
        totalTime_def)
qed

text \<open>
  C9. The claim is that with no cuisine the generation prompt never contains \<open>Cuisine:\<close>.
  The ingredients are copied into the prompt as they are, so an ingredient that contains the
  word brings it into the prompt.
\<close>

theorem ingredient_brings_cuisine_word:
  "sublist ''Cuisine:''
     (buildRecipeGenerationPrompt [''Lean Cuisine: lasagna'', ''rice''] None hard 45)"
proof -
  have "sublist ''Cuisine:'' (''Lean '' @ ''Cuisine:'' @ '' lasagna, rice'')"
    by (rule sublist_appendI)
  then have "sublist ''Cuisine:'' (joined '', '' [''Lean Cuisine: lasagna'', ''rice''])"
    by simp
  then show ?thesis
    by (simp only: cuisine_word_in_prompt)
qed

text \<open>
  C9, as the code has it. With no cuisine the generation prompt contains every ingredient
  name of the request, and it contains \<open>Cuisine:\<close> exactly when the comma-separated list of
  the ingredients does: the prompt has no \<open>Cuisine:\<close> line of its own. For the
  ingredients chicken breast, rice and broccoli, difficulty hard and 45 minutes, the prompt
  contains the three names and does not contain \<open>Cuisine:\<close>.
\<close>

theorem prompt_names_ingredients:
  "(\<forall>i \<in> set ings. sublist i (buildRecipeGenerationPrompt ings None d t)) \<and>
   (sublist ''Cuisine:'' (buildRecipeGenerationPrompt ings None d t) \<longleftrightarrow>
    sublist ''Cuisine:'' (joined '', '' ings))"
  using prompt_contains_ingredient [of _ ings None d t] cuisine_word_in_prompt [of ings d t]
  by blast

theorem prompt_names_ingredients_witness:
  "sublist ''chicken breast''
     (buildRecipeGenerationPrompt [''chicken breast'', ''rice'', ''broccoli''] None hard 45) \<and>
   sublist ''rice''
     (buildRecipeGenerationPrompt [''chicken breast'', ''rice'', ''broccoli''] None hard 45) \<and>
   sublist ''broccoli''
     (buildRecipeGenerationPrompt [''chicken breast'', ''rice'', ''broccoli''] None hard 45) \<and>
   \<not> sublist ''Cuisine:''
     (buildRecipeGenerationPrompt [''chicken breast'', ''rice'', ''broccoli''] None hard 45)"
proof -
  have "\<not> sublist ''Cuisine:'' (joined '', '' [''chicken breast'', ''rice'', ''broccoli''])"
    by (simp add: sublist_Cons_right)
  with prompt_names_ingredients [of "[''chicken breast'', ''rice'', ''broccoli'']" hard 45]
  show ?thesis by simp
qed

text \<open>
  C10. Once the extracted text decodes to a JSON object, the parser returns a recipe: an
  \<open>ingredients\<close> or \<open>instructions\<close> entry that is absent or is not an array of objects gives
  an empty list, and a \<open>nutrition\<close> entry that is absent or is not an object gives no
  nutrition record. Conversely the parser throws (its \<open>parsingError\<close> in particular) only
  when the text has not decoded to a JSON object, and it throws \<open>parsingError\<close> exactly when
  the text has decoded to something else.
\<close>

theorem mapping_never_fails:
  "(jsonObject F (extractTextFromResponse json) = Some (NSDictionary recipeData) \<longrightarrow>
      (\<exists>r. parseRecipeResponse F json ings = Inr r \<and>
         ((\<forall>ds. map_of recipeData ''ingredients'' \<noteq> Some (NSArray (map NSDictionary ds))) \<longrightarrow>
            ingredients r = []) \<and>
         ((\<forall>ds. map_of recipeData ''instructions'' \<noteq> Some (NSArray (map NSDictionary ds))) \<longrightarrow>
            instructions r = []) \<and>
         ((\<forall>kv. map_of recipeData ''nutrition'' \<noteq> Some (NSDictionary kv)) \<longrightarrow>
            nutrition r = None))) \<and>
   (\<forall>e. parseRecipeResponse F json ings = Inl e \<longrightarrow>
      (\<forall>kv. jsonObject F (extractTextFromResponse json) \<noteq> Some (NSDictionary kv))) \<and>
   (parseRecipeResponse F json ings = Inl (Gemini parsingError) \<longleftrightarrow>
      (\<exists>v. jsonObject F (extractTextFromResponse json) = Some v \<and>
           (\<forall>kv. v \<noteq> NSDictionary kv)))"
proof (intro conjI impI allI)
  assume dec: "jsonObject F (extractTextFromResponse json) = Some (NSDictionary recipeData)"
  have arr: "getDictArray recipeData k = None"
    if "\<forall>ds. map_of recipeData k \<noteq> Some (NSArray (map NSDictionary ds))" for k
  proof (cases "map_of recipeData k")
    case None
    then show ?thesis by (simp add: getDictArray_def)
  next
    case (Some v)
    with that show ?thesis
      by (cases v; cases "asDictArray v") (auto simp: getDictArray_def dest: allDicts_SomeD)
  qed
  have obj: "getDict recipeData k = None"
    if "\<forall>kv. map_of recipeData k \<noteq> Some (NSDictionary kv)" for k
  proof (cases "map_of recipeData k")
    case None
    then show ?thesis by (simp add: getDict_def)
  next
    case (Some v)
    with that show ?thesis by (cases v) (simp_all add: getDict_def)
  qed
  from parse_dict [OF dec, of ings]
  show "\<exists>r. parseRecipeResponse F json ings = Inr r \<and>
         ((\<forall>ds. map_of recipeData ''ingredients'' \<noteq> Some (NSArray (map NSDictionary ds))) \<longrightarrow>
            ingredients r = []) \<and>
         ((\<forall>ds. map_of recipeData ''instructions'' \<noteq> Some (NSArray (map NSDictionary ds))) \<longrightarrow>
            instructions r = []) \<and>
         ((\<forall>kv. map_of recipeData ''nutrition'' \<noteq> Some (NSDictionary kv)) \<longrightarrow>
            nutrition r = None)"
    using arr obj by auto
next
  fix e kv
  assume "parseRecipeResponse F json ings = Inl e"
  then show "jsonObject F (extractTextFromResponse json) \<noteq> Some (NSDictionary kv)"
    using parse_dict [of F json kv ings] by auto
next
  show "parseRecipeResponse F json ings = Inl (Gemini parsingError) \<longleftrightarrow>
      (\<exists>v. jsonObject F (extractTextFromResponse json) = Some v \<and>
           (\<forall>kv. v \<noteq> NSDictionary kv))"
  proof (cases "jsonObject F (extractTextFromResponse json)")
    case None
    then show ?thesis by (simp add: parseRecipeResponse_def)
  next
    case (Some v)
    show ?thesis
    proof (cases "asDict v")
      case None
      then have "\<forall>kv. v \<noteq> NSDictionary kv" by auto
      with Some None show ?thesis by (simp add: parseRecipeResponse_def)
    next
      case (Some kv)
      then have v: "v = NSDictionary kv" by (cases v) simp_all
      with \<open>jsonObject F (extractTextFromResponse json) = Some v\<close>
        parse_dict [of F json kv ings]
      show ?thesis by auto
    qed
  qed
qed

theorem mapping_never_fails_witness:
  "jsonObject sampleFoundation (extractTextFromResponse (replyEnvelope ''{}'')) =
     Some (NSDictionary []) \<and>
   (\<exists>r. parseRecipeResponse sampleFoundation (replyEnvelope ''{}'') [] = Inr r \<and>
      ingredients r = [] \<and> instructions r = [] \<and> nutrition r = None) \<and>
   jsonObject sampleFoundation (extractTextFromResponse (replyEnvelope ''[]'')) =
     Some (NSArray []) \<and>
   parseRecipeResponse sampleFoundation (replyEnvelope ''[]'') [] = Inl (Gemini parsingError)"
proof -
  from mapping_never_fails [of sampleFoundation "replyEnvelope ''{}''" "[]" "[]",
      THEN conjunct1, rule_format, OF sample_decodes_empty]
  have ok: "\<exists>r. parseRecipeResponse sampleFoundation (replyEnvelope ''{}'') [] = Inr r \<and>
      ingredients r = [] \<and> instructions r = [] \<and> nutrition r = None"
    by simp
  from mapping_never_fails [of sampleFoundation "replyEnvelope ''[]''" "[]" "[]",
      THEN conjunct2, THEN conjunct2]
  have "parseRecipeResponse sampleFoundation (replyEnvelope ''[]'') [] =
      Inl (Gemini parsingError)"
    by (simp add: sample_decodes_array)
  with ok sample_decodes_empty sample_decodes_array show ?thesis by blast
qed

end
